theory Spec2Isabelle
  imports Main
begin

section \<open>Exceptions as values\<close>

text \<open>
  The Python exceptions that the modelled code can raise. \<open>UserError\<close> stands for an
  exception raised by an injected state function of a leaf condition.
\<close>

datatype error =
    AttributeError
  | TypeError
  | ValueError
  | OverflowError
  | OutOfBoundsDatetime
  | NotImplementedError
  | UserError string

type_synonym 'a result = "error + 'a"

definition bind_result :: "'a result \<Rightarrow> ('a \<Rightarrow> 'b result) \<Rightarrow> 'b result" where
  "bind_result m f = (case m of Inl e \<Rightarrow> Inl e | Inr x \<Rightarrow> f x)"

section \<open>The condition tree (rocketry/core/condition/base.py)\<close>

text \<open>
  A condition is a leaf (a subclass of \<open>BaseCondition\<close> with its \<open>get_state\<close>), one of
  the containers \<open>Any\<close>, \<open>All\<close>, \<open>Not\<close>, or one of the constants. The type
  parameter \<open>'c\<close> is the keyword context passed to \<open>observe\<close>, and \<open>'s\<close> is
  the state of the world that a state function may read and change (task history, a
  call counter); \<open>observe\<close> threads it through the calls in the order in which the
  Python code makes them.

  A leaf carries the name of its class and its state function. The selection of the
  keyword arguments that \<open>get_state\<close> declares (\<open>Parameters._from_signature\<close>, not
  part of these sources) is folded into that function; the value it returns is
  represented by its truth value.

  The constructors of \<open>Any\<close> and \<open>All\<close> store whatever arguments they are given,
  so a tree may hold an object that is no condition at all. \<open>NonCondition i\<close> is such
  an object (a plain Python object with identity \<open>i\<close>): it has no \<open>observe\<close>
  method and no \<open>__invert__\<close>.
\<close>

datatype ('c, 's) condition =
    Leaf string "'c \<Rightarrow> 's \<Rightarrow> bool result \<times> 's"
  | Any_cond "('c, 's) condition list"
  | All_cond "('c, 's) condition list"
  | Not_cond "('c, 's) condition"
  | AlwaysTrue
  | AlwaysFalse
  | NonCondition nat

subsection \<open>Construction\<close>

text \<open>
  \<open>Any.__init__\<close> and \<open>All.__init__\<close>: the loop appends, for each argument in turn,
  the argument's own children when it is an instance of the same class and the argument
  itself otherwise. Neither constructor has a failing path.
\<close>

definition Any_init :: "('c, 's) condition list \<Rightarrow> ('c, 's) condition" where
  "Any_init conditions =
     Any_cond (foldl (\<lambda>subconditions cond.
        subconditions @ (case cond of Any_cond conds \<Rightarrow> conds | _ \<Rightarrow> [cond]))
        [] conditions)"

definition All_init :: "('c, 's) condition list \<Rightarrow> ('c, 's) condition" where
  "All_init conditions =
     All_cond (foldl (\<lambda>subconditions cond.
        subconditions @ (case cond of All_cond conds \<Rightarrow> conds | _ \<Rightarrow> [cond]))
        [] conditions)"

text \<open>\<open>Not.__init__\<close> stores its argument.\<close>

definition Not_init :: "('c, 's) condition \<Rightarrow> ('c, 's) condition" where
  "Not_init condition = Not_cond condition"

text \<open>
  The operator \<open>~\<close>: \<open>Not.__invert__\<close> returns the wrapped condition, every other
  condition inherits \<open>BaseCondition.__invert__\<close>, which builds \<open>Not(self)\<close>. An
  object without \<open>__invert__\<close> raises \<open>TypeError\<close>.
\<close>

fun invert :: "('c, 's) condition \<Rightarrow> ('c, 's) condition result" where
  "invert (Not_cond condition) = Inr condition"
| "invert (NonCondition i) = Inl TypeError"
| "invert c = Inr (Not_init c)"

subsection \<open>Equality\<close>

text \<open>
  \<open>__eq__\<close>: \<open>BaseCondition.__eq__\<close> compares the classes only;
  \<open>_ConditionContainer.__eq__\<close> (for \<open>Any\<close> and \<open>All\<close>) compares the classes and then
  the child lists, element by element; \<open>Not.__eq__\<close> compares the classes and the
  wrapped conditions. Subclassing among condition classes is not modelled: two classes
  are related only when they are the same. A plain object is equal to itself only.
\<close>

fun cond_eq :: "('c, 's) condition \<Rightarrow> ('c, 's) condition \<Rightarrow> bool"
  and conds_eq :: "('c, 's) condition list \<Rightarrow> ('c, 's) condition list \<Rightarrow> bool" where
  "cond_eq (Leaf n f) other = (case other of Leaf m g \<Rightarrow> n = m | _ \<Rightarrow> False)"
| "cond_eq (Any_cond cs) other = (case other of Any_cond ds \<Rightarrow> conds_eq cs ds | _ \<Rightarrow> False)"
| "cond_eq (All_cond cs) other = (case other of All_cond ds \<Rightarrow> conds_eq cs ds | _ \<Rightarrow> False)"
| "cond_eq (Not_cond c) other = (case other of Not_cond d \<Rightarrow> cond_eq c d | _ \<Rightarrow> False)"
| "cond_eq AlwaysTrue other = (case other of AlwaysTrue \<Rightarrow> True | _ \<Rightarrow> False)"
| "cond_eq AlwaysFalse other = (case other of AlwaysFalse \<Rightarrow> True | _ \<Rightarrow> False)"
| "cond_eq (NonCondition i) other = (case other of NonCondition j \<Rightarrow> i = j | _ \<Rightarrow> False)"
| "conds_eq [] ds = (ds = [])"
| "conds_eq (c # cs) ds = (case ds of [] \<Rightarrow> False | d # ds' \<Rightarrow> cond_eq c d \<and> conds_eq cs ds')"

subsection \<open>Evaluation\<close>

text \<open>
  \<open>observe\<close>. The loops of \<open>Any.observe\<close> and \<open>All.observe\<close> are the functions
  \<open>observe_Any\<close> and \<open>observe_All\<close> over the remaining children; an exception of a
  child leaves the loop at once, with the state reached so far.
\<close>

fun observe :: "('c, 's) condition \<Rightarrow> 'c \<Rightarrow> 's \<Rightarrow> bool result \<times> 's"
  and observe_Any :: "('c, 's) condition list \<Rightarrow> 'c \<Rightarrow> 's \<Rightarrow> bool result \<times> 's"
  and observe_All :: "('c, 's) condition list \<Rightarrow> 'c \<Rightarrow> 's \<Rightarrow> bool result \<times> 's" where
  "observe (Leaf n get_state) kwargs s = get_state kwargs s"
| "observe (Any_cond subconditions) kwargs s = observe_Any subconditions kwargs s"
| "observe (All_cond subconditions) kwargs s = observe_All subconditions kwargs s"
| "observe (Not_cond condition) kwargs s =
     (case observe condition kwargs s of
        (Inl e, s') \<Rightarrow> (Inl e, s')
      | (Inr b, s') \<Rightarrow> (Inr (\<not> b), s'))"
| "observe AlwaysTrue kwargs s = (Inr True, s)"
| "observe AlwaysFalse kwargs s = (Inr False, s)"
| "observe (NonCondition i) kwargs s = (Inl AttributeError, s)"
| "observe_Any [] kwargs s = (Inr False, s)"
| "observe_Any (subcond # rest) kwargs s =
     (case observe subcond kwargs s of
        (Inl e, s') \<Rightarrow> (Inl e, s')
      | (Inr b, s') \<Rightarrow> if b then (Inr True, s') else observe_Any rest kwargs s')"
| "observe_All [] kwargs s = (Inr True, s)"
| "observe_All (subcond # rest) kwargs s =
     (case observe subcond kwargs s of
        (Inl e, s') \<Rightarrow> (Inl e, s')
      | (Inr b, s') \<Rightarrow> if \<not> b then (Inr False, s') else observe_All rest kwargs s')"

text \<open>
  A reference evaluation for stating what short-circuiting skips: every child is
  observed, in list order, each from the state its predecessor left; only an exception
  stops it. It returns the truth values in order.
\<close>

fun observe_in_order :: "('c, 's) condition list \<Rightarrow> 'c \<Rightarrow> 's \<Rightarrow> bool list result \<times> 's" where
  "observe_in_order [] kwargs s = (Inr [], s)"
| "observe_in_order (c # cs) kwargs s =
     (case observe c kwargs s of
        (Inl e, s') \<Rightarrow> (Inl e, s')
      | (Inr b, s') \<Rightarrow>
          (case observe_in_order cs kwargs s' of
             (Inl e, s'') \<Rightarrow> (Inl e, s'')
           | (Inr bs, s'') \<Rightarrow> (Inr (b # bs), s'')))"

text \<open>No \<open>All\<close> directly below an \<open>All\<close> and no \<open>Any\<close> directly below an \<open>Any\<close>,
  anywhere in the tree.\<close>

fun is_Any :: "('c, 's) condition \<Rightarrow> bool" where
  "is_Any (Any_cond cs) = True"
| "is_Any c = False"

fun is_All :: "('c, 's) condition \<Rightarrow> bool" where
  "is_All (All_cond cs) = True"
| "is_All c = False"

fun flattened :: "('c, 's) condition \<Rightarrow> bool" where
  "flattened (Any_cond cs) = list_all (\<lambda>c. \<not> is_Any c \<and> flattened c) cs"
| "flattened (All_cond cs) = list_all (\<lambda>c. \<not> is_All c \<and> flattened c) cs"
| "flattened (Not_cond c) = flattened c"
| "flattened c = True"

fun is_Not :: "('c, 's) condition \<Rightarrow> bool" where
  "is_Not (Not_cond c) = True"
| "is_Not c = False"

fun is_NonCondition :: "('c, 's) condition \<Rightarrow> bool" where
  "is_NonCondition (NonCondition i) = True"
| "is_NonCondition c = False"

section \<open>Instants, durations and intervals (the pandas values the periods compute with)\<close>

text \<open>
  An instant is a \<open>pd.Timestamp\<close>: a count of nanoseconds since the epoch, between
  \<open>Timestamp.min\<close> and \<open>Timestamp.max\<close> (the range of a signed 64-bit count, whose
  least value is reserved for not-a-time). Arithmetic on a \<open>Timestamp\<close> or
  \<open>Timedelta\<close> does not wrap: a result outside the range raises (an
  \<open>OverflowError\<close> or an \<open>OutOfBoundsDatetime\<close>, by the version of pandas;
  here \<open>OverflowError\<close>). The conversion \<open>pd.Timestamp(x)\<close> of a time outside
  the range raises \<open>OutOfBoundsDatetime\<close>, and it maps not-a-time to not-a-time.

  Two different steps are called resolution in the sources: \<open>TimePeriod.resolution\<close> is
  \<open>pd.Timestamp.resolution\<close>, one nanosecond, and the composites step by
  \<open>datetime.datetime.resolution\<close>, one microsecond.
\<close>

type_synonym instant = int

definition Timestamp_min :: instant where
  "Timestamp_min = - (2 ^ 63 - 1)"

definition Timestamp_max :: instant where
  "Timestamp_max = 2 ^ 63 - 1"

definition in_bounds :: "int \<Rightarrow> bool" where
  "in_bounds x = (Timestamp_min \<le> x \<and> x \<le> Timestamp_max)"

definition resolution :: int where
  "resolution = 1"

definition datetime_resolution :: int where
  "datetime_resolution = 1000"

text \<open>A duration is a \<open>pd.Timedelta\<close> in nanoseconds, or not-a-time.\<close>

datatype timedelta = NaT | Timedelta int

definition isna :: "timedelta \<Rightarrow> bool" where
  "isna td = (td = NaT)"

fun abs_timedelta :: "timedelta \<Rightarrow> timedelta" where
  "abs_timedelta NaT = NaT"
| "abs_timedelta (Timedelta d) = Timedelta \<bar>d\<bar>"

definition Timestamp_add :: "instant \<Rightarrow> int \<Rightarrow> instant result" where
  "Timestamp_add t d =
     (if Timestamp_min \<le> t + d \<and> t + d \<le> Timestamp_max then Inr (t + d) else Inl OverflowError)"

definition Timestamp_sub :: "instant \<Rightarrow> int \<Rightarrow> instant result" where
  "Timestamp_sub t d =
     (if Timestamp_min \<le> t - d \<and> t - d \<le> Timestamp_max then Inr (t - d) else Inl OverflowError)"

definition Timestamp :: "int \<Rightarrow> instant result" where
  "Timestamp x = (if in_bounds x then Inr x else Inl OutOfBoundsDatetime)"

definition Timestamp_or_NaT :: "int option \<Rightarrow> instant option result" where
  "Timestamp_or_NaT v =
     (case v of
        None \<Rightarrow> Inr None
      | Some x \<Rightarrow> bind_result (Timestamp x) (\<lambda>t. Inr (Some t)))"

text \<open>Adding not-a-time gives not-a-time (\<open>None\<close>), without an exception.\<close>

fun Timestamp_add_timedelta :: "instant \<Rightarrow> timedelta \<Rightarrow> instant option result" where
  "Timestamp_add_timedelta t NaT = Inr None"
| "Timestamp_add_timedelta t (Timedelta d) = bind_result (Timestamp_add t d) (\<lambda>r. Inr (Some r))"

fun Timestamp_sub_timedelta :: "instant \<Rightarrow> timedelta \<Rightarrow> instant option result" where
  "Timestamp_sub_timedelta t NaT = Inr None"
| "Timestamp_sub_timedelta t (Timedelta d) = bind_result (Timestamp_sub t d) (\<lambda>r. Inr (Some r))"

text \<open>An integer times a \<open>Timedelta\<close> is a \<open>Timedelta\<close>, with the same range.\<close>

definition Timedelta_mul :: "int \<Rightarrow> int \<Rightarrow> int result" where
  "Timedelta_mul k d =
     (if Timestamp_min \<le> k * d \<and> k * d \<le> Timestamp_max then Inr (k * d) else Inl OverflowError)"

text \<open>Every ordering comparison with not-a-time is false.\<close>

fun le_NaT :: "instant option \<Rightarrow> instant option \<Rightarrow> bool" where
  "le_NaT (Some a) (Some b) = (a \<le> b)"
| "le_NaT a b = False"

text \<open>
  The attribute accesses \<open>dt.right\<close> and \<open>dt.left\<close> on an instant: a \<open>Timestamp\<close>
  has neither attribute, so the access raises \<open>AttributeError\<close>.
\<close>

definition Timestamp_right :: "instant \<Rightarrow> instant result" where
  "Timestamp_right dt = Inl AttributeError"

definition Timestamp_left :: "instant \<Rightarrow> instant result" where
  "Timestamp_left dt = Inl AttributeError"

text \<open>
  \<open>pd.Interval(left, right, closed)\<close>. The argument \<open>closed\<close> names the closed sides
  and defaults to \<open>'right'\<close>: a call \<open>pd.Interval(start, end)\<close> builds an interval
  open on the left. The constructor raises \<open>ValueError\<close> unless \<open>left \<le> right\<close>
  (so also when an endpoint is not-a-time). \<open>contains\<close> is \<open>key in interval\<close> and
  \<open>overlaps\<close> is \<open>Interval.overlaps\<close>: two intervals that only touch at an
  endpoint overlap when both are closed there.
\<close>

datatype closed = closed_right | closed_left | closed_both | closed_neither

record interval =
  left :: instant
  right :: instant
  closed :: closed

definition Interval :: "instant option \<Rightarrow> instant option \<Rightarrow> closed \<Rightarrow> interval result" where
  "Interval l r c =
     (case (l, r) of
        (Some a, Some b) \<Rightarrow>
          if \<not> a \<le> b then Inl ValueError else Inr \<lparr>left = a, right = b, closed = c\<rparr>
      | _ \<Rightarrow> Inl ValueError)"

definition closed_left_side :: "interval \<Rightarrow> bool" where
  "closed_left_side iv = (closed iv = closed_left \<or> closed iv = closed_both)"

definition closed_right_side :: "interval \<Rightarrow> bool" where
  "closed_right_side iv = (closed iv = closed_right \<or> closed iv = closed_both)"

definition contains :: "interval \<Rightarrow> instant \<Rightarrow> bool" where
  "contains iv key =
     ((if closed_left_side iv then left iv \<le> key else left iv < key) \<and>
      (if closed_right_side iv then key \<le> right iv else key < right iv))"

definition overlaps :: "interval \<Rightarrow> interval \<Rightarrow> bool" where
  "overlaps self other =
     ((if closed_left_side self \<and> closed_right_side other
         then left self \<le> right other else left self < right other) \<and>
      (if closed_left_side other \<and> closed_right_side self
         then left other \<le> right self else left other < right self))"

text \<open>Python's \<open>max\<close> and \<open>min\<close> of a list raise \<open>ValueError\<close> on the empty list.\<close>

fun python_max :: "int list \<Rightarrow> int result" where
  "python_max [] = Inl ValueError"
| "python_max (x # xs) = Inr (fold max xs x)"

fun python_min :: "int list \<Rightarrow> int result" where
  "python_min [] = Inl ValueError"
| "python_min (x # xs) = Inr (fold min xs x)"

section \<open>Time periods (powerbase/core/time/base.py)\<close>

subsection \<open>TimeInterval\<close>

text \<open>
  \<open>TimeInterval\<close> is abstract: its subclasses (outside these sources) supply
  \<open>rollstart\<close>, \<open>rollend\<close>, \<open>next_end\<close> and \<open>prev_start\<close>, taken here as
  parameters that map an instant to a time, which the rolls convert with
  \<open>pd.Timestamp\<close>. Both rolls pass \<open>closed="both"\<close>.
\<close>

record TimeInterval_methods =
  rollstart :: "instant \<Rightarrow> instant"
  rollend :: "instant \<Rightarrow> instant"
  next_end :: "instant \<Rightarrow> instant"
  prev_start :: "instant \<Rightarrow> instant"

definition TimeInterval_rollforward :: "TimeInterval_methods \<Rightarrow> instant \<Rightarrow> interval result" where
  "TimeInterval_rollforward self dt =
     (let start = rollstart self dt;
          end' = next_end self dt
      in bind_result (Timestamp start) (\<lambda>start.
         bind_result (Timestamp end') (\<lambda>end'.
         Interval (Some start) (Some end') closed_both)))"

definition TimeInterval_rollback :: "TimeInterval_methods \<Rightarrow> instant \<Rightarrow> interval result" where
  "TimeInterval_rollback self dt =
     (let end' = rollend self dt;
          start = prev_start self dt
      in bind_result (Timestamp start) (\<lambda>start.
         bind_result (Timestamp end') (\<lambda>end'.
         Interval (Some start) (Some end') closed_both)))"

subsection \<open>TimeDelta\<close>

text \<open>
  The attribute \<open>reference\<close> is not set by the constructor; \<open>None\<close> is the object
  without it, and a caller supplies it by setting the attribute.

  The constructor's arguments are given as durations already converted by
  \<open>pd.Timedelta\<close> (\<open>None\<close> is Python's \<open>None\<close>). When \<open>self.past\<close> is not-a-time
  the statement \<open>raise future(...)\<close> calls the argument \<open>future\<close>, which is a
  duration and not callable: the call raises \<open>TypeError\<close>. The second guard tests
  \<open>self.past\<close> again.
\<close>

record TimeDelta_attrs =
  past :: timedelta
  future :: timedelta
  reference :: "instant option"

definition call_object :: "timedelta \<Rightarrow> error result" where
  "call_object obj = Inl TypeError"

definition TimeDelta_init :: "timedelta option \<Rightarrow> timedelta option \<Rightarrow> TimeDelta_attrs result" where
  "TimeDelta_init past_arg future_arg =
     (let past_arg = (case past_arg of None \<Rightarrow> Timedelta 0 | Some v \<Rightarrow> v);
          future_arg = (case future_arg of None \<Rightarrow> Timedelta 0 | Some v \<Rightarrow> v);
          self_past = abs_timedelta past_arg;
          self_future = abs_timedelta future_arg
      in if isna self_past then
           (case call_object future_arg of Inl e \<Rightarrow> Inl e | Inr exc \<Rightarrow> Inl exc)
         else if isna self_past then Inl ValueError
         else Inr \<lparr>past = self_past, future = self_future, reference = None\<rparr>)"

definition TimeDelta_contains :: "TimeDelta_attrs \<Rightarrow> instant \<Rightarrow> bool result" where
  "TimeDelta_contains self dt =
     (case reference self of
        None \<Rightarrow> Inl AttributeError
      | Some ref \<Rightarrow>
          bind_result (Timestamp_sub_timedelta ref (abs_timedelta (past self))) (\<lambda>start.
          bind_result (Timestamp_add_timedelta ref (abs_timedelta (future self))) (\<lambda>end'.
          Inr (le_NaT start (Some dt) \<and> le_NaT (Some dt) end'))))"

definition TimeDelta_rollback :: "TimeDelta_attrs \<Rightarrow> instant \<Rightarrow> interval result" where
  "TimeDelta_rollback self dt =
     bind_result (Timestamp_sub_timedelta dt (abs_timedelta (past self))) (\<lambda>start.
     bind_result (Timestamp_or_NaT start) (\<lambda>start.
     bind_result (Timestamp dt) (\<lambda>end'.
     Interval start (Some end') closed_right)))"

definition TimeDelta_rollforward :: "TimeDelta_attrs \<Rightarrow> instant \<Rightarrow> interval result" where
  "TimeDelta_rollforward self dt =
     bind_result (Timestamp_add_timedelta dt (abs_timedelta (future self))) (\<lambda>end'.
     bind_result (Timestamp dt) (\<lambda>start.
     bind_result (Timestamp_or_NaT end') (\<lambda>end'.
     Interval (Some start) end' closed_right)))"

subsection \<open>TimeCycle\<close>

text \<open>
  \<open>TimeCycle\<close> is abstract: a subclass supplies the class attribute \<open>offset\<close> (the
  length of one cycle unit, taken as a fixed duration in nanoseconds), the start
  element computed by \<open>transform_start\<close>, and the methods \<open>get_time_element\<close> and
  \<open>replace\<close>. They are parameters here.
\<close>

record TimeCycle_attrs =
  cycle_start :: int
  cycle_n :: int
  cycle_offset :: int
  get_time_element :: "instant \<Rightarrow> int"
  replace :: "instant \<Rightarrow> instant"

definition TimeCycle_rollback :: "TimeCycle_attrs \<Rightarrow> instant \<Rightarrow> interval result" where
  "TimeCycle_rollback self dt =
     bind_result (Timedelta_mul (cycle_n self - 1) (cycle_offset self)) (\<lambda>span.
     bind_result (Timestamp_sub dt span) (\<lambda>dt_start.
     bind_result (if get_time_element self dt_start \<ge> cycle_start self then Inr dt_start
                  else Timestamp_sub dt_start (cycle_offset self)) (\<lambda>dt_start.
     bind_result (Timestamp (replace self dt_start)) (\<lambda>start.
     bind_result (Timestamp dt) (\<lambda>end'.
     Interval (Some start) (Some end') closed_right)))))"

definition TimeCycle_rollforward :: "TimeCycle_attrs \<Rightarrow> instant \<Rightarrow> interval result" where
  "TimeCycle_rollforward self dt =
     bind_result (Timedelta_mul (cycle_n self - 1) (cycle_offset self)) (\<lambda>span.
     bind_result (Timestamp_add dt span) (\<lambda>dt_end.
     bind_result (if get_time_element self dt_end \<ge> cycle_start self
                  then Timestamp_add dt_end (cycle_offset self)
                  else Inr dt_end) (\<lambda>dt_end.
     bind_result (Timestamp dt) (\<lambda>start.
     bind_result (Timestamp (replace self dt_end)) (\<lambda>converted.
     bind_result (Timestamp_sub converted resolution) (\<lambda>end'.
     Interval (Some start) (Some end') closed_right))))))"

subsection \<open>StaticInterval\<close>

text \<open>
  A single interval from \<open>self.start\<close> to \<open>self.end\<close>. An instant past the end
  rolls forward to the interval from \<open>Timestamp.max\<close> to itself, an instant before the
  start rolls back to the one from \<open>Timestamp.min\<close> to itself.
\<close>

definition StaticInterval_rollback :: "instant \<Rightarrow> instant \<Rightarrow> interval result" where
  "StaticInterval_rollback self_start dt =
     bind_result (Timestamp dt) (\<lambda>dt.
     bind_result (Timestamp self_start) (\<lambda>start.
       if start > dt
       then Interval (Some Timestamp_min) (Some Timestamp_min) closed_right
       else Interval (Some start) (Some dt) closed_right))"

definition StaticInterval_rollforward :: "instant \<Rightarrow> instant \<Rightarrow> interval result" where
  "StaticInterval_rollforward self_end dt =
     bind_result (Timestamp dt) (\<lambda>dt.
     bind_result (Timestamp self_end) (\<lambda>end'.
       if end' < dt
       then Interval (Some Timestamp_max) (Some Timestamp_max) closed_right
       else Interval (Some dt) (Some end') closed_right))"

subsection \<open>Overlap of a list of intervals\<close>

text \<open>\<open>itertools.combinations(xs, 2)\<close>: the pairs of positions \<open>i < j\<close>, in order.\<close>

fun combinations2 :: "'a list \<Rightarrow> ('a \<times> 'a) list" where
  "combinations2 [] = []"
| "combinations2 (x # xs) = map (Pair x) xs @ combinations2 xs"

definition all_overlap :: "interval list \<Rightarrow> bool" where
  "all_overlap intervals = list_all (\<lambda>(a, b). overlaps a b) (combinations2 intervals)"

definition get_overlapping :: "interval list \<Rightarrow> interval result" where
  "get_overlapping intervals =
     (let starts = map left intervals;
          ends = map right intervals
      in bind_result (python_max starts) (\<lambda>start.
         bind_result (python_min ends) (\<lambda>end'.
         Interval (Some start) (Some end') closed_right)))"

subsection \<open>The period variants and their rolls\<close>

datatype period =
    TimeInterval TimeInterval_methods
  | TimeDelta TimeDelta_attrs
  | TimeCycle TimeCycle_attrs
  | All_period "period list"
  | Any_period "period list"
  | Offsetted period int
  | StaticInterval instant instant

text \<open>
  The constructors. An argument of \<open>All\<close> or \<open>Any\<close> is a period or some other
  object; the only check is \<open>isinstance(arg, TimePeriod)\<close> for each argument.
\<close>

datatype period_arg = PeriodArg period | OtherArg

fun isinstance_TimePeriod :: "period_arg \<Rightarrow> bool" where
  "isinstance_TimePeriod (PeriodArg p) = True"
| "isinstance_TimePeriod OtherArg = False"

fun periods_of :: "period_arg list \<Rightarrow> period list" where
  "periods_of [] = []"
| "periods_of (PeriodArg p # args) = p # periods_of args"
| "periods_of (OtherArg # args) = periods_of args"

definition All_period_init :: "period_arg list \<Rightarrow> period result" where
  "All_period_init args =
     (if list_ex (\<lambda>arg. \<not> isinstance_TimePeriod arg) args then Inl TypeError
      else Inr (All_period (periods_of args)))"

definition Any_period_init :: "period_arg list \<Rightarrow> period result" where
  "Any_period_init args =
     (if list_ex (\<lambda>arg. \<not> isinstance_TimePeriod arg) args then Inl TypeError
      else Inr (Any_period (periods_of args)))"

fun Offsetted_init :: "period \<Rightarrow> int \<Rightarrow> period result" where
  "Offsetted_init (TimeCycle c) n = Inl NotImplementedError"
| "Offsetted_init period n = Inr (Offsetted period n)"

definition StaticInterval_init :: "instant option \<Rightarrow> instant option \<Rightarrow> period" where
  "StaticInterval_init start end' =
     StaticInterval (case start of Some v \<Rightarrow> v | None \<Rightarrow> Timestamp_min)
                    (case end' of Some v \<Rightarrow> v | None \<Rightarrow> Timestamp_max)"

text \<open>
  The rolls of \<open>All\<close> and \<open>Any\<close> call themselves with a new instant and nothing
  bounds the number of these calls. A roll therefore takes the depth of calls it may
  still make: the outcome \<open>None\<close> says that this depth was used up, \<open>Some (Inl e)\<close>
  that exception \<open>e\<close> was raised, \<open>Some (Inr iv)\<close> that \<open>iv\<close> was returned.
  \<open>collect\<close> is a list comprehension over calls: the first call that does not return
  ends it.
\<close>

type_synonym 'a outcome = "'a result option"

definition bind_outcome :: "'a outcome \<Rightarrow> ('a \<Rightarrow> 'b outcome) \<Rightarrow> 'b outcome" where
  "bind_outcome m f =
     (case m of None \<Rightarrow> None | Some (Inl e) \<Rightarrow> Some (Inl e) | Some (Inr x) \<Rightarrow> f x)"

fun collect :: "'a outcome list \<Rightarrow> 'a list outcome" where
  "collect [] = Some (Inr [])"
| "collect (m # ms) =
     bind_outcome m (\<lambda>x. bind_outcome (collect ms) (\<lambda>xs. Some (Inr (x # xs))))"

text \<open>
  \<open>any(pd.Interval(start, end).overlaps(interval) for interval in next_intervals)\<close>:
  the interval is built anew for each element that is reached.
\<close>

fun any_overlaps :: "instant \<Rightarrow> instant \<Rightarrow> interval list \<Rightarrow> bool result" where
  "any_overlaps start end' [] = Inr False"
| "any_overlaps start end' (interval # rest) =
     bind_result (Interval (Some start) (Some end') closed_right) (\<lambda>span.
       if overlaps span interval then Inr True else any_overlaps start end' rest)"

fun rollforward :: "nat \<Rightarrow> period \<Rightarrow> instant \<Rightarrow> interval outcome" where
  "rollforward 0 self dt = None"
| "rollforward (Suc k) (TimeInterval m) dt = Some (TimeInterval_rollforward m dt)"
| "rollforward (Suc k) (TimeDelta d) dt = Some (TimeDelta_rollforward d dt)"
| "rollforward (Suc k) (TimeCycle c) dt = Some (TimeCycle_rollforward c dt)"
| "rollforward (Suc k) (StaticInterval start end') dt = Some (StaticInterval_rollforward end' dt)"
| "rollforward (Suc k) (Offsetted period n) dt =
     bind_outcome (rollforward k period dt) (\<lambda>interval.
     bind_outcome (Some (Timestamp_add (right interval) resolution)) (\<lambda>new_dt.
     rollforward k period new_dt))"
| "rollforward (Suc k) (All_period periods) dt =
     bind_outcome (collect (map (\<lambda>period. rollforward k period dt) periods)) (\<lambda>intervals.
       if all_overlap intervals then Some (get_overlapping intervals)
       else
         bind_outcome (Some (python_min (map right intervals))) (\<lambda>earliest.
         bind_outcome (Some (Timestamp_add earliest datetime_resolution)) (\<lambda>seed.
         rollforward k (All_period periods) seed)))"
| "rollforward (Suc k) (Any_period periods) dt =
     bind_outcome (collect (map (\<lambda>period. rollforward k period dt) periods)) (\<lambda>intervals.
     bind_outcome (Some (python_min (map left intervals))) (\<lambda>start.
     bind_outcome (Some (python_max (map right intervals))) (\<lambda>end'.
     bind_outcome (Some (Timestamp_add end' datetime_resolution)) (\<lambda>seed.
     bind_outcome (collect (map (\<lambda>period. rollforward k period seed) periods)) (\<lambda>next_intervals.
     bind_outcome (Some (any_overlaps start end' next_intervals)) (\<lambda>extend.
       if extend then
         bind_outcome (rollforward k (Any_period periods) seed) (\<lambda>extended.
         Some (Interval (Some start) (Some (right extended)) closed_right))
       else Some (Interval (Some start) (Some end') closed_right)))))))"

fun rollback :: "nat \<Rightarrow> period \<Rightarrow> instant \<Rightarrow> interval outcome" where
  "rollback 0 self dt = None"
| "rollback (Suc k) (TimeInterval m) dt = Some (TimeInterval_rollback m dt)"
| "rollback (Suc k) (TimeDelta d) dt = Some (TimeDelta_rollback d dt)"
| "rollback (Suc k) (TimeCycle c) dt = Some (TimeCycle_rollback c dt)"
| "rollback (Suc k) (StaticInterval start end') dt = Some (StaticInterval_rollback start dt)"
| "rollback (Suc k) (Offsetted period n) dt =
     bind_outcome (rollback k period dt) (\<lambda>interval.
     bind_outcome (Some (Timestamp_sub (left interval) resolution)) (\<lambda>new_dt.
     rollback k period new_dt))"
| "rollback (Suc k) (All_period periods) dt =
     bind_outcome (collect (map (\<lambda>period. rollback k period dt) periods)) (\<lambda>intervals.
       if all_overlap intervals then Some (get_overlapping intervals)
       else
         bind_outcome (Some (python_max (map left intervals))) (\<lambda>latest.
         bind_outcome (Some (Timestamp_sub latest datetime_resolution)) (\<lambda>seed.
         rollback k (All_period periods) seed)))"
| "rollback (Suc k) (Any_period periods) dt =
     bind_outcome (collect (map (\<lambda>period. rollback k period dt) periods)) (\<lambda>intervals.
     bind_outcome (Some (python_min (map left intervals))) (\<lambda>start.
     bind_outcome (Some (python_max (map right intervals))) (\<lambda>end'.
     bind_outcome (Some (Timestamp_sub start datetime_resolution)) (\<lambda>seed.
     bind_outcome (collect (map (\<lambda>period. rollback k period seed) periods)) (\<lambda>next_intervals.
     bind_outcome (Some (any_overlaps start end' next_intervals)) (\<lambda>extend.
       if extend then
         bind_outcome (rollback k (Any_period periods) seed) (\<lambda>extended.
         Some (Interval (Some (left extended)) (Some end') closed_right))
       else Some (Interval (Some start) (Some end') closed_right)))))))"

text \<open>
  The methods of the base class \<open>TimePeriod\<close>. \<open>__contains__\<close> is the one that
  \<open>TimeCycle\<close>, \<open>StaticInterval\<close>, \<open>Offsetted\<close> and the composites inherit
  (\<open>TimeDelta\<close> overrides it, see \<open>TimeDelta_contains\<close>, and \<open>TimeInterval\<close>
  leaves its own to its subclasses). \<open>next\<close> and \<open>prev\<close> read \<open>dt.right\<close> and
  \<open>dt.left\<close> of the instant they were given.
\<close>

definition TimePeriod_contains :: "nat \<Rightarrow> period \<Rightarrow> instant \<Rightarrow> bool outcome" where
  "TimePeriod_contains k self other =
     bind_outcome (rollforward k self other) (\<lambda>interval.
     Some (Inr (contains interval other)))"

definition next_period :: "nat \<Rightarrow> period \<Rightarrow> instant \<Rightarrow> interval outcome" where
  "next_period k self dt =
     bind_outcome (rollforward k self dt) (\<lambda>interv.
       if contains interv dt then
         bind_outcome (Some (Timestamp_right dt)) (\<lambda>edge.
         bind_outcome (Some (Timestamp_add edge resolution)) (\<lambda>seed.
         rollforward k self seed))
       else Some (Inr interv))"

definition prev_period :: "nat \<Rightarrow> period \<Rightarrow> instant \<Rightarrow> interval outcome" where
  "prev_period k self dt =
     bind_outcome (rollback k self dt) (\<lambda>interv.
       if contains interv dt then
         bind_outcome (Some (Timestamp_left dt)) (\<lambda>edge.
         bind_outcome (Some (Timestamp_sub edge resolution)) (\<lambda>seed.
         rollback k self seed))
       else Some (Inr interv))"

section \<open>Properties of the condition tree\<close>

subsection \<open>Construction\<close>

lemma foldl_flatten:
  "foldl (\<lambda>acc c. acc @ f c) init cs = init @ concat (map f cs)"
  by (induction cs arbitrary: init) simp_all

lemma All_init_concat:
  "All_init cs =
     All_cond (concat (map (\<lambda>cond. case cond of All_cond conds \<Rightarrow> conds | _ \<Rightarrow> [cond]) cs))"
  by (simp add: All_init_def foldl_flatten)

lemma Any_init_concat:
  "Any_init cs =
     Any_cond (concat (map (\<lambda>cond. case cond of Any_cond conds \<Rightarrow> conds | _ \<Rightarrow> [cond]) cs))"
  by (simp add: Any_init_def foldl_flatten)

lemma All_init_assoc: "All_init [All_init [a, b], c] = All_init [a, b, c]"
  by (simp add: All_init_concat)

lemma Any_init_assoc: "Any_init [Any_init [a, b], c] = Any_init [a, b, c]"
  by (simp add: Any_init_concat)

lemma flattened_All_concat:
  "list_all flattened cs \<Longrightarrow>
   list_all (\<lambda>c. \<not> is_All c \<and> flattened c)
     (concat (map (\<lambda>cond. case cond of All_cond conds \<Rightarrow> conds | _ \<Rightarrow> [cond]) cs))"
proof (induction cs)
  case Nil
  show ?case by simp
next
  case (Cons c cs)
  then show ?case by (cases c) simp_all
qed

lemma flattened_Any_concat:
  "list_all flattened cs \<Longrightarrow>
   list_all (\<lambda>c. \<not> is_Any c \<and> flattened c)
     (concat (map (\<lambda>cond. case cond of Any_cond conds \<Rightarrow> conds | _ \<Rightarrow> [cond]) cs))"
proof (induction cs)
  case Nil
  show ?case by simp
next
  case (Cons c cs)
  then show ?case by (cases c) simp_all
qed

lemma flattened_All_init: "list_all flattened cs \<Longrightarrow> flattened (All_init cs)"
  by (simp add: All_init_concat flattened_All_concat)

lemma flattened_Any_init: "list_all flattened cs \<Longrightarrow> flattened (Any_init cs)"
  by (simp add: Any_init_concat flattened_Any_concat)

lemma conds_eq_reflI: "(\<And>c. c \<in> set cs \<Longrightarrow> cond_eq c c) \<Longrightarrow> conds_eq cs cs"
  by (induction cs) auto

lemma cond_eq_refl: "cond_eq c c"
  by (induction c) (auto intro: conds_eq_reflI)

lemma cond_eq_Not_Not: "\<not> cond_eq (Not_cond (Not_cond x)) x"
  by (induction x) (auto split: condition.splits)

subsection \<open>Evaluation in sequence\<close>

text \<open>
  Observing a list of children is observing a prefix and then, only when every child of
  the prefix was true (for \<open>All\<close>) or false (for \<open>Any\<close>), the rest, from the state
  the prefix left.
\<close>

lemma observe_All_append:
  "observe_All (pre @ post) kw s =
     (case observe_All pre kw s of
        (Inr True, s1) \<Rightarrow> observe_All post kw s1
      | r \<Rightarrow> r)"
  by (induction pre arbitrary: s) (auto split: prod.splits sum.splits bool.splits)

lemma observe_Any_append:
  "observe_Any (pre @ post) kw s =
     (case observe_Any pre kw s of
        (Inr False, s1) \<Rightarrow> observe_Any post kw s1
      | r \<Rightarrow> r)"
  by (induction pre arbitrary: s) (auto split: prod.splits sum.splits bool.splits)

lemma observe_All_True_iff:
  "(observe_All cs kw s = (Inr True, s')) =
   (observe_in_order cs kw s = (Inr (replicate (length cs) True), s'))"
  by (induction cs arbitrary: s) (auto split: prod.splits sum.splits bool.splits if_splits)

lemma observe_Any_False_iff:
  "(observe_Any cs kw s = (Inr False, s')) =
   (observe_in_order cs kw s = (Inr (replicate (length cs) False), s'))"
  by (induction cs arbitrary: s) (auto split: prod.splits sum.splits bool.splits if_splits)

lemma All_first_False:
  "observe_in_order pre kw s = (Inr (replicate (length pre) True), s1) \<Longrightarrow>
   observe c kw s1 = (Inr False, s2) \<Longrightarrow>
   observe_All (pre @ c # post) kw s = (Inr False, s2)"
  by (simp add: observe_All_append observe_All_True_iff [symmetric])

lemma Any_first_True:
  "observe_in_order pre kw s = (Inr (replicate (length pre) False), s1) \<Longrightarrow>
   observe c kw s1 = (Inr True, s2) \<Longrightarrow>
   observe_Any (pre @ c # post) kw s = (Inr True, s2)"
  by (simp add: observe_Any_append observe_Any_False_iff [symmetric])

text \<open>Flattening a child of the same kind into its parent does not change what is observed.\<close>

lemma observe_All_flat1:
  "observe_All ((case c of All_cond conds \<Rightarrow> conds | _ \<Rightarrow> [c]) @ rest) kw s =
   observe_All (c # rest) kw s"
  by (cases c) (simp_all add: observe_All_append split: prod.splits sum.splits bool.splits)

lemma observe_Any_flat1:
  "observe_Any ((case c of Any_cond conds \<Rightarrow> conds | _ \<Rightarrow> [c]) @ rest) kw s =
   observe_Any (c # rest) kw s"
  by (cases c) (simp_all add: observe_Any_append split: prod.splits sum.splits bool.splits)

lemma observe_All_concat:
  "observe_All (concat (map (\<lambda>cond. case cond of All_cond conds \<Rightarrow> conds | _ \<Rightarrow> [cond]) cs)) kw s
     = observe_All cs kw s"
proof (induction cs arbitrary: s)
  case Nil
  show ?case by simp
next
  case (Cons c cs)
  show ?case
    by (simp add: observe_All_flat1 Cons.IH del: observe.simps split: prod.splits sum.splits)
qed

lemma observe_Any_concat:
  "observe_Any (concat (map (\<lambda>cond. case cond of Any_cond conds \<Rightarrow> conds | _ \<Rightarrow> [cond]) cs)) kw s
     = observe_Any cs kw s"
proof (induction cs arbitrary: s)
  case Nil
  show ?case by simp
next
  case (Cons c cs)
  show ?case
    by (simp add: observe_Any_flat1 Cons.IH del: observe.simps split: prod.splits sum.splits)
qed

lemma observe_All_init: "observe (All_init cs) kw s = observe (All_cond cs) kw s"
  by (simp add: All_init_concat observe_All_concat)

lemma observe_Any_init: "observe (Any_init cs) kw s = observe (Any_cond cs) kw s"
  by (simp add: Any_init_concat observe_Any_concat)

subsection \<open>Double negation\<close>

text \<open>
  C4, as the constructor is written: \<open>Not(Not(x))\<close> is not \<open>x\<close>. For the constant
  \<open>AlwaysTrue\<close> the doubly wrapped node differs from it, as a tree and under
  \<open>__eq__\<close>.
\<close>

theorem Not_init_double_counterexample:
  "Not_init (Not_init (AlwaysTrue :: (unit, unit) condition)) \<noteq> AlwaysTrue \<and>
   \<not> cond_eq (Not_init (Not_init AlwaysTrue)) (AlwaysTrue :: (unit, unit) condition)"
  by (simp add: Not_init_def)

text \<open>
  C4, amended: the collapse of a double negation is done by the operator \<open>~\<close> and not
  by the constructor. Inverting \<open>Not(x)\<close> returns \<open>x\<close> itself, and inverting twice a
  condition that is not itself a \<open>Not\<close> node returns that condition; the constructor
  call \<open>Not(Not(x))\<close> builds the doubly wrapped node, which is never equal to \<open>x\<close>.
\<close>

theorem invert_Not_init:
  "invert (Not_init x) = Inr x \<and>
   Not_init (Not_init x) = Not_cond (Not_cond x) \<and>
   Not_init (Not_init x) \<noteq> x \<and>
   \<not> cond_eq (Not_init (Not_init x)) x \<and>
   (\<not> is_Not x \<and> \<not> is_NonCondition x \<longrightarrow> bind_result (invert x) invert = Inr x)"
proof -
  have 1: "invert (Not_init x) = Inr x"
    by (simp add: Not_init_def)
  have 2: "Not_init (Not_init x) = Not_cond (Not_cond x)"
    by (simp add: Not_init_def)
  have 3: "Not_init (Not_init x) \<noteq> x"
    unfolding Not_init_def by (induction x) simp_all
  have 4: "\<not> cond_eq (Not_init (Not_init x)) x"
    unfolding Not_init_def by (rule cond_eq_Not_Not)
  have 5: "\<not> is_Not x \<and> \<not> is_NonCondition x \<longrightarrow> bind_result (invert x) invert = Inr x"
    by (cases x) (simp_all add: bind_result_def Not_init_def)
  from 1 2 3 4 5 show ?thesis by blast
qed

theorem invert_Not_init_witness:
  "\<not> is_Not (AlwaysFalse :: (unit, unit) condition) \<and>
   \<not> is_NonCondition (AlwaysFalse :: (unit, unit) condition) \<and>
   invert (Not_init (AlwaysFalse :: (unit, unit) condition)) = Inr AlwaysFalse \<and>
   bind_result (invert (AlwaysFalse :: (unit, unit) condition)) invert = Inr AlwaysFalse"
  using invert_Not_init [of "AlwaysFalse :: (unit, unit) condition"] by simp

subsection \<open>Short-circuit evaluation\<close>

text \<open>
  C5: \<open>All.observe\<close> observes its children in list order, each from the state its
  predecessor left. When the children before \<open>c\<close> are observed true and \<open>c\<close> is
  observed false, the result is false and the state is the one \<open>c\<close> left, whatever the
  later children \<open>post\<close> are: none of them is invoked. It returns true exactly when
  every child, observed in order, is true. Dually, \<open>Any.observe\<close> returns true at the
  first true child without invoking a later one, and returns false exactly when every
  child, observed in order, is false.
\<close>

theorem observe_short_circuit:
  "(observe_in_order pre kw s = (Inr (replicate (length pre) True), s1) \<and>
    observe c kw s1 = (Inr False, s2)
      \<longrightarrow> observe (All_cond (pre @ c # post)) kw s = (Inr False, s2)) \<and>
   ((observe (All_cond cs) kw s = (Inr True, s')) =
      (observe_in_order cs kw s = (Inr (replicate (length cs) True), s'))) \<and>
   (observe_in_order pre kw s = (Inr (replicate (length pre) False), s1) \<and>
    observe c kw s1 = (Inr True, s2)
      \<longrightarrow> observe (Any_cond (pre @ c # post)) kw s = (Inr True, s2)) \<and>
   ((observe (Any_cond cs) kw s = (Inr False, s')) =
      (observe_in_order cs kw s = (Inr (replicate (length cs) False), s')))"
  using All_first_False [of pre kw s s1 c s2 post] Any_first_True [of pre kw s s1 c s2 post]
    observe_All_True_iff [of cs kw s s'] observe_Any_False_iff [of cs kw s s']
  by simp

text \<open>
  A call-count probe: the state counts the calls of state functions. The leaf after
  the deciding one would add ten (or raise); the count stays at one.
\<close>

theorem observe_short_circuit_witness:
  "observe_in_order [AlwaysTrue] () (0::nat) =
     (Inr (replicate (length [AlwaysTrue :: (unit, nat) condition]) True), 0) \<and>
   observe (Leaf ''A'' (\<lambda>kw n. (Inr False, Suc n))) () (0::nat) = (Inr False, 1) \<and>
   observe (All_cond ([AlwaysTrue] @ Leaf ''A'' (\<lambda>kw n. (Inr False, Suc n)) #
              [Leaf ''B'' (\<lambda>kw n. (Inr True, n + 10))])) () (0::nat) = (Inr False, 1) \<and>
   observe_in_order [AlwaysFalse] () (0::nat) =
     (Inr (replicate (length [AlwaysFalse :: (unit, nat) condition]) False), 0) \<and>
   observe (Leaf ''A'' (\<lambda>kw n. (Inr True, Suc n))) () (0::nat) = (Inr True, 1) \<and>
   observe (Any_cond ([AlwaysFalse] @ Leaf ''A'' (\<lambda>kw n. (Inr True, Suc n)) #
              [Leaf ''B'' (\<lambda>kw n. (Inl (UserError ''probe''), n + 10))])) () (0::nat) = (Inr True, 1)"
  using observe_short_circuit [of "[AlwaysTrue]" "()" "0::nat" 0
          "Leaf ''A'' (\<lambda>kw n. (Inr False, Suc n))" 1 "[Leaf ''B'' (\<lambda>kw n. (Inr True, n + 10))]"]
        observe_short_circuit [of "[AlwaysFalse]" "()" "0::nat" 0
          "Leaf ''A'' (\<lambda>kw n. (Inr True, Suc n))" 1
          "[Leaf ''B'' (\<lambda>kw n. (Inl (UserError ''probe''), n + 10))]"]
  by simp

subsection \<open>Flattening\<close>

text \<open>
  C6: building \<open>All(All(a, b), c)\<close> gives the same tree as building \<open>All(a, b, c)\<close>,
  so the two observe alike in every context and state; the flattened tree also
  observes as the nested node would. When \<open>a\<close>, \<open>b\<close> and \<open>c\<close> hold no composite
  directly below a composite of its kind, neither does the result. The same holds for
  \<open>Any\<close>.
\<close>

theorem flattening_idempotent:
  "All_init [All_init [a, b], c] = All_init [a, b, c] \<and>
   Any_init [Any_init [a, b], c] = Any_init [a, b, c] \<and>
   observe (All_init [All_init [a, b], c]) kw s = observe (All_init [a, b, c]) kw s \<and>
   observe (Any_init [Any_init [a, b], c]) kw s = observe (Any_init [a, b, c]) kw s \<and>
   observe (All_init [a, b, c]) kw s = observe (All_cond [All_cond [a, b], c]) kw s \<and>
   observe (Any_init [a, b, c]) kw s = observe (Any_cond [Any_cond [a, b], c]) kw s \<and>
   (flattened a \<and> flattened b \<and> flattened c \<longrightarrow>
      flattened (All_init [All_init [a, b], c]) \<and> flattened (Any_init [Any_init [a, b], c]))"
proof -
  have 1: "observe (All_init [a, b, c]) kw s = observe (All_cond [All_cond [a, b], c]) kw s"
    by (simp add: observe_All_init split: prod.splits sum.splits)
  have 2: "observe (Any_init [a, b, c]) kw s = observe (Any_cond [Any_cond [a, b], c]) kw s"
    by (simp add: observe_Any_init split: prod.splits sum.splits)
  have 3: "flattened a \<and> flattened b \<and> flattened c \<longrightarrow>
      flattened (All_init [a, b, c]) \<and> flattened (Any_init [a, b, c])"
    using flattened_All_init [of "[a, b, c]"] flattened_Any_init [of "[a, b, c]"] by simp
  show ?thesis
    using 1 2 3 by (simp only: All_init_assoc Any_init_assoc simp_thms)
qed

theorem flattening_idempotent_witness:
  "flattened (All_cond [AlwaysTrue, AlwaysFalse] :: (unit, unit) condition) \<and>
   flattened (Leaf ''x'' (\<lambda>kw s. (Inr True, s)) :: (unit, unit) condition) \<and>
   flattened (AlwaysTrue :: (unit, unit) condition) \<and>
   All_init [All_init [All_cond [AlwaysTrue, AlwaysFalse], Leaf ''x'' (\<lambda>kw s. (Inr True, s))],
             AlwaysTrue]
     = (All_cond [AlwaysTrue, AlwaysFalse, Leaf ''x'' (\<lambda>kw s. (Inr True, s)), AlwaysTrue]
          :: (unit, unit) condition) \<and>
   flattened (All_init [All_init [All_cond [AlwaysTrue, AlwaysFalse],
                                  Leaf ''x'' (\<lambda>kw s. (Inr True, s))],
                        AlwaysTrue :: (unit, unit) condition])"
  using flattening_idempotent [of "All_cond [AlwaysTrue, AlwaysFalse] :: (unit, unit) condition"
          "Leaf ''x'' (\<lambda>kw s. (Inr True, s))" AlwaysTrue "()" "()"]
  by (simp add: All_init_def)

section \<open>Properties of intervals and of the leaf periods\<close>

lemma Interval_Inr:
  "Interval l r c = Inr iv \<Longrightarrow>
   l = Some (left iv) \<and> r = Some (right iv) \<and> closed iv = c \<and> left iv \<le> right iv"
  by (auto simp: Interval_def split: option.splits if_splits)

lemma contains_closed_both:
  "closed iv = closed_both \<Longrightarrow> contains iv p = (left iv \<le> p \<and> p \<le> right iv)"
  by (simp add: contains_def closed_left_side_def closed_right_side_def)

lemma contains_left_closed_right:
  "closed iv = closed_right \<Longrightarrow> \<not> contains iv (left iv)"
  by (simp add: contains_def closed_left_side_def)

lemma overlaps_le: "overlaps a b \<Longrightarrow> left a \<le> right b \<and> left b \<le> right a"
  by (auto simp: overlaps_def split: if_splits)

lemma bind_result_Inr:
  "bind_result m f = Inr y \<Longrightarrow> \<exists>x. m = Inr x \<and> f x = Inr y"
  by (cases m) (simp_all add: bind_result_def)

lemma Timestamp_Inr: "Timestamp x = Inr y \<Longrightarrow> y = x"
  by (simp add: Timestamp_def split: if_splits)

lemma Timestamp_or_NaT_Inr: "Timestamp_or_NaT v = Inr w \<Longrightarrow> w = v"
  by (cases v) (auto simp: Timestamp_or_NaT_def dest!: bind_result_Inr Timestamp_Inr)

lemma Timestamp_in_bounds: "in_bounds x \<Longrightarrow> Timestamp x = Inr x"
  by (simp add: Timestamp_def)

lemma TimeInterval_rollforward_closed:
  "TimeInterval_rollforward m dt = Inr iv \<Longrightarrow> closed iv = closed_both \<and> left iv \<le> right iv"
  by (auto simp: TimeInterval_rollforward_def Let_def dest!: bind_result_Inr Interval_Inr)

lemma TimeInterval_rollback_closed:
  "TimeInterval_rollback m dt = Inr iv \<Longrightarrow> closed iv = closed_both \<and> left iv \<le> right iv"
  by (auto simp: TimeInterval_rollback_def Let_def dest!: bind_result_Inr Interval_Inr)

lemma TimeDelta_rollback_closed:
  "TimeDelta_rollback d dt = Inr iv \<Longrightarrow>
   closed iv = closed_right \<and> right iv = dt \<and> left iv \<le> right iv"
  by (auto simp: TimeDelta_rollback_def dest!: bind_result_Inr Interval_Inr Timestamp_Inr)

lemma TimeDelta_rollforward_closed:
  "TimeDelta_rollforward d dt = Inr iv \<Longrightarrow>
   closed iv = closed_right \<and> left iv = dt \<and> left iv \<le> right iv"
  by (auto simp: TimeDelta_rollforward_def dest!: bind_result_Inr Interval_Inr Timestamp_Inr)

lemma TimeCycle_rollforward_closed:
  "TimeCycle_rollforward c dt = Inr iv \<Longrightarrow>
   closed iv = closed_right \<and> left iv = dt \<and> left iv \<le> right iv"
  by (auto simp: TimeCycle_rollforward_def dest!: bind_result_Inr Interval_Inr Timestamp_Inr)

lemma TimeCycle_rollback_closed:
  "TimeCycle_rollback c dt = Inr iv \<Longrightarrow>
   closed iv = closed_right \<and> right iv = dt \<and> left iv \<le> right iv"
  by (auto simp: TimeCycle_rollback_def dest!: bind_result_Inr Interval_Inr Timestamp_Inr)

lemma StaticInterval_rollforward_closed:
  "StaticInterval_rollforward e dt = Inr iv \<Longrightarrow> closed iv = closed_right \<and> left iv \<le> right iv"
  by (auto simp: StaticInterval_rollforward_def split: if_splits
      dest!: bind_result_Inr Interval_Inr)

lemma StaticInterval_rollback_closed:
  "StaticInterval_rollback s dt = Inr iv \<Longrightarrow> closed iv = closed_right \<and> left iv \<le> right iv"
  by (auto simp: StaticInterval_rollback_def split: if_splits
      dest!: bind_result_Inr Interval_Inr)

lemma TimeInterval_rollforward_valid:
  "TimeInterval_rollforward m dt = Inr iv \<Longrightarrow> left iv \<le> right iv"
  by (blast dest: TimeInterval_rollforward_closed)

lemma TimeDelta_rollforward_valid:
  "TimeDelta_rollforward d dt = Inr iv \<Longrightarrow> left iv \<le> right iv"
  by (blast dest: TimeDelta_rollforward_closed)

lemma TimeCycle_rollforward_valid:
  "TimeCycle_rollforward c dt = Inr iv \<Longrightarrow> left iv \<le> right iv"
  by (blast dest: TimeCycle_rollforward_closed)

lemma StaticInterval_rollforward_valid:
  "StaticInterval_rollforward e dt = Inr iv \<Longrightarrow> left iv \<le> right iv"
  by (blast dest: StaticInterval_rollforward_closed)

subsection \<open>Closure of the rolled intervals\<close>

text \<open>
  C2 (the code departs from it): only the rolls of \<open>TimeInterval\<close> pass
  \<open>closed="both"\<close>. \<open>TimeDelta\<close>, \<open>TimeCycle\<close>, \<open>StaticInterval\<close> and the
  composites call \<open>pd.Interval(start, end)\<close> with the default, so their intervals are
  open on the left. Evaluated at a one-hour \<open>TimeDelta\<close> rolled back from 02:00 and at
  a daily cycle rolled forward from 10:00: the left endpoint of the returned interval
  is not contained in it.
\<close>

theorem roll_interval_left_open:
  "TimeDelta_rollback \<lparr>past = Timedelta 3600000000000, future = Timedelta 0, reference = None\<rparr>
     7200000000000 =
     Inr \<lparr>left = 3600000000000, right = 7200000000000, closed = closed_right\<rparr> \<and>
   \<not> contains \<lparr>left = 3600000000000, right = 7200000000000, closed = closed_right\<rparr> 3600000000000 \<and>
   TimeCycle_rollforward \<lparr>cycle_start = 0, cycle_n = 1, cycle_offset = 86400000000000,
       get_time_element = (\<lambda>t. t mod 86400000000000),
       replace = (\<lambda>t. t - t mod 86400000000000)\<rparr> 36000000000000 =
     Inr \<lparr>left = 36000000000000, right = 86399999999999, closed = closed_right\<rparr> \<and>
   \<not> contains \<lparr>left = 36000000000000, right = 86399999999999, closed = closed_right\<rparr> 36000000000000"
  by (simp add: TimeDelta_rollback_def TimeCycle_rollforward_def bind_result_def Timestamp_sub_def
      Timestamp_add_def Timedelta_mul_def Interval_def contains_def closed_left_side_def
      closed_right_side_def Timestamp_min_def Timestamp_max_def resolution_def
      Timestamp_def Timestamp_or_NaT_def in_bounds_def)

subsection \<open>Membership in a cycle\<close>

text \<open>
  C3 (the code departs from it): the membership test that \<open>TimeCycle\<close> inherits rolls
  forward from the instant and asks whether the instant is in the result. The result
  starts at that instant and is open on the left, so the test never returns true, for
  any cycle and any instant; for a daily cycle at 10:00 it returns false.
\<close>

theorem TimeCycle_contains_never_true:
  "TimePeriod_contains k (TimeCycle c) dt \<noteq> Some (Inr True) \<and>
   TimePeriod_contains 1 (TimeCycle \<lparr>cycle_start = 0, cycle_n = 1, cycle_offset = 86400000000000,
       get_time_element = (\<lambda>t. t mod 86400000000000),
       replace = (\<lambda>t. t - t mod 86400000000000)\<rparr>) 36000000000000 = Some (Inr False)"
proof -
  have 1: "TimePeriod_contains k (TimeCycle c) dt \<noteq> Some (Inr True)"
  proof (cases k)
    case 0
    then show ?thesis by (simp add: TimePeriod_contains_def bind_outcome_def)
  next
    case (Suc j)
    show ?thesis
    proof (cases "TimeCycle_rollforward c dt")
      case (Inl e)
      with Suc show ?thesis by (simp add: TimePeriod_contains_def bind_outcome_def)
    next
      case (Inr iv)
      from TimeCycle_rollforward_closed [OF Inr] have "\<not> contains iv dt"
        using contains_left_closed_right [of iv] by simp
      with Suc Inr show ?thesis by (simp add: TimePeriod_contains_def bind_outcome_def)
    qed
  qed
  have 2: "TimePeriod_contains 1 (TimeCycle \<lparr>cycle_start = 0, cycle_n = 1, cycle_offset = 86400000000000,
       get_time_element = (\<lambda>t. t mod 86400000000000),
       replace = (\<lambda>t. t - t mod 86400000000000)\<rparr>) 36000000000000 = Some (Inr False)"
    by (simp add: TimePeriod_contains_def bind_outcome_def TimeCycle_rollforward_def bind_result_def
      Timestamp_sub_def Timestamp_add_def Timedelta_mul_def Interval_def contains_def
      closed_left_side_def closed_right_side_def Timestamp_min_def Timestamp_max_def resolution_def
      Timestamp_def in_bounds_def)
  from 1 2 show ?thesis by blast
qed

subsection \<open>next and prev\<close>

text \<open>
  What \<open>next\<close> and \<open>prev\<close> compute: the second roll is never reached, because its
  argument reads \<open>dt.right\<close> (\<open>dt.left\<close>) of the instant.
\<close>

lemma next_period_never_rerolls:
  "next_period k p dt =
     bind_outcome (rollforward k p dt) (\<lambda>interv.
       if contains interv dt then Some (Inl AttributeError) else Some (Inr interv))"
  by (simp add: next_period_def bind_outcome_def Timestamp_right_def
      split: option.splits sum.splits)

lemma prev_period_never_rerolls:
  "prev_period k p dt =
     bind_outcome (rollback k p dt) (\<lambda>interv.
       if contains interv dt then Some (Inl AttributeError) else Some (Inr interv))"
  by (simp add: prev_period_def bind_outcome_def Timestamp_left_def
      split: option.splits sum.splits)

text \<open>
  C1 (the code departs from it): when the instant lies inside the interval of the first
  roll, \<open>next\<close> and \<open>prev\<close> do not roll again from past the far edge; they raise
  \<open>AttributeError\<close>. So it is for \<open>prev\<close> of a one-hour \<open>TimeDelta\<close> at 02:00
  and for \<open>next\<close> of a \<open>TimeInterval\<close> whose occurrence holds the instant.
\<close>

theorem next_prev_raise_AttributeError:
  "next_period k p dt =
     bind_outcome (rollforward k p dt) (\<lambda>interv.
       if contains interv dt then Some (Inl AttributeError) else Some (Inr interv)) \<and>
   prev_period k p dt =
     bind_outcome (rollback k p dt) (\<lambda>interv.
       if contains interv dt then Some (Inl AttributeError) else Some (Inr interv)) \<and>
   rollback 1 (TimeDelta \<lparr>past = Timedelta 3600000000000, future = Timedelta 0, reference = None\<rparr>)
     7200000000000 = Some (Inr \<lparr>left = 3600000000000, right = 7200000000000, closed = closed_right\<rparr>) \<and>
   prev_period 1 (TimeDelta \<lparr>past = Timedelta 3600000000000, future = Timedelta 0, reference = None\<rparr>)
     7200000000000 = Some (Inl AttributeError) \<and>
   rollforward 1 (TimeInterval \<lparr>rollstart = (\<lambda>t. t), rollend = (\<lambda>t. t),
       next_end = (\<lambda>t. t - t mod 3600000000000 + 3599999999999),
       prev_start = (\<lambda>t. t - t mod 3600000000000)\<rparr>) 7200000000000 =
     Some (Inr \<lparr>left = 7200000000000, right = 10799999999999, closed = closed_both\<rparr>) \<and>
   next_period 1 (TimeInterval \<lparr>rollstart = (\<lambda>t. t), rollend = (\<lambda>t. t),
       next_end = (\<lambda>t. t - t mod 3600000000000 + 3599999999999),
       prev_start = (\<lambda>t. t - t mod 3600000000000)\<rparr>) 7200000000000 = Some (Inl AttributeError)"
  by (simp add: next_period_never_rerolls prev_period_never_rerolls bind_outcome_def
      TimeDelta_rollback_def TimeInterval_rollforward_def bind_result_def Timestamp_sub_def
      Interval_def contains_def closed_left_side_def closed_right_side_def
      Timestamp_min_def Timestamp_max_def Timestamp_def Timestamp_or_NaT_def in_bounds_def)

section \<open>Properties of TimeDelta\<close>




lemma TimeDelta_init_Inr:
  "TimeDelta_init pa fu = Inr d \<Longrightarrow>
   reference d = None \<and> (\<exists>p. past d = Timedelta p \<and> 0 \<le> p) \<and>
   (future d = NaT \<or> (\<exists>f. future d = Timedelta f \<and> 0 \<le> f))"
proof -
  assume a: "TimeDelta_init pa fu = Inr d"
  define pv where "pv = (case pa of None \<Rightarrow> Timedelta 0 | Some v \<Rightarrow> v)"
  define fv where "fv = (case fu of None \<Rightarrow> Timedelta 0 | Some v \<Rightarrow> v)"
  from a have nn: "abs_timedelta pv \<noteq> NaT"
    by (auto simp: TimeDelta_init_def Let_def pv_def isna_def call_object_def split: if_splits)
  with a have d: "d = \<lparr>past = abs_timedelta pv, future = abs_timedelta fv, reference = None\<rparr>"
    by (auto simp: TimeDelta_init_def Let_def pv_def fv_def isna_def split: if_splits)
  from nn have "\<exists>p. abs_timedelta pv = Timedelta p \<and> 0 \<le> p" by (cases pv) simp_all
  moreover have "abs_timedelta fv = NaT \<or> (\<exists>f. abs_timedelta fv = Timedelta f \<and> 0 \<le> f)"
    by (cases fv) simp_all
  ultimately show ?thesis using d by simp
qed

text \<open>
  C8: membership in a \<open>TimeDelta\<close> without the attribute \<open>reference\<close> raises (the
  exception is an \<open>AttributeError\<close>), and a freshly constructed \<open>TimeDelta\<close> has
  none. Once a caller has set the reference, and the durations are times and both ends
  are within the range of instants, membership is \<open>reference - past \<le> dt \<le>
  reference + future\<close>.
\<close>

theorem TimeDelta_contains_reference:
  "(reference d = None \<longrightarrow> TimeDelta_contains d dt = Inl AttributeError) \<and>
   (TimeDelta_init past_arg future_arg = Inr d \<longrightarrow>
      TimeDelta_contains d dt = Inl AttributeError) \<and>
   (TimeDelta_init past_arg future_arg = Inr d \<and> past d = Timedelta p \<and> future d = Timedelta f \<and>
    in_bounds (ref - p) \<and> in_bounds (ref + f) \<longrightarrow>
      TimeDelta_contains (d\<lparr>reference := Some ref\<rparr>) dt = Inr (ref - p \<le> dt \<and> dt \<le> ref + f))"
proof -
  have 1: "reference d = None \<longrightarrow> TimeDelta_contains d dt = Inl AttributeError"
    by (simp add: TimeDelta_contains_def)
  have 2: "TimeDelta_init past_arg future_arg = Inr d \<longrightarrow>
      TimeDelta_contains d dt = Inl AttributeError"
    using TimeDelta_init_Inr [of past_arg future_arg d] by (simp add: TimeDelta_contains_def)
  have 3: "TimeDelta_init past_arg future_arg = Inr d \<and> past d = Timedelta p \<and> future d = Timedelta f \<and>
    in_bounds (ref - p) \<and> in_bounds (ref + f) \<longrightarrow>
      TimeDelta_contains (d\<lparr>reference := Some ref\<rparr>) dt = Inr (ref - p \<le> dt \<and> dt \<le> ref + f)"
  proof
    assume h: "TimeDelta_init past_arg future_arg = Inr d \<and> past d = Timedelta p \<and>
      future d = Timedelta f \<and> in_bounds (ref - p) \<and> in_bounds (ref + f)"
    with TimeDelta_init_Inr [of past_arg future_arg d] have "0 \<le> p" "0 \<le> f" by auto
    with h show "TimeDelta_contains (d\<lparr>reference := Some ref\<rparr>) dt = Inr (ref - p \<le> dt \<and> dt \<le> ref + f)"
      by (simp add: TimeDelta_contains_def bind_result_def Timestamp_sub_def Timestamp_add_def in_bounds_def)
  qed
  from 1 2 3 show ?thesis by blast
qed

lemma TimeDelta_contains_NaT_future:
  "reference d = Some ref \<Longrightarrow> future d = NaT \<Longrightarrow> TimeDelta_contains d dt \<noteq> Inr True"
  by (cases "past d") (auto simp: TimeDelta_contains_def bind_result_def Timestamp_sub_def split: sum.splits)

theorem TimeDelta_contains_reference_witness:
  "TimeDelta_init (Some (Timedelta 3600000000000)) (Some (Timedelta 0)) =
     Inr \<lparr>past = Timedelta 3600000000000, future = Timedelta 0, reference = None\<rparr> \<and>
   in_bounds (7200000000000 - 3600000000000) \<and> in_bounds (7200000000000 + 0) \<and>
   TimeDelta_contains \<lparr>past = Timedelta 3600000000000, future = Timedelta 0, reference = None\<rparr>
     3600000000000 = Inl AttributeError \<and>
   TimeDelta_contains \<lparr>past = Timedelta 3600000000000, future = Timedelta 0,
     reference = Some 7200000000000\<rparr> 3600000000000 = Inr True \<and>
   TimeDelta_contains \<lparr>past = Timedelta 3600000000000, future = Timedelta 0,
     reference = Some 7200000000000\<rparr> (3600000000000 - resolution) = Inr False \<and>
   TimeDelta_contains \<lparr>past = Timedelta 3600000000000, future = Timedelta 0,
     reference = Some 7200000000000\<rparr> 7200000000000 = Inr True \<and>
   TimeDelta_contains \<lparr>past = Timedelta 3600000000000, future = Timedelta 0,
     reference = Some 7200000000000\<rparr> (7200000000000 + resolution) = Inr False"
proof -
  have i: "TimeDelta_init (Some (Timedelta 3600000000000)) (Some (Timedelta 0)) =
     Inr \<lparr>past = Timedelta 3600000000000, future = Timedelta 0, reference = None\<rparr>"
    by (simp add: TimeDelta_init_def isna_def)
  have b: "in_bounds (7200000000000 - 3600000000000)" "in_bounds (7200000000000 + 0)"
    by (simp_all add: in_bounds_def Timestamp_min_def Timestamp_max_def)
  note t = TimeDelta_contains_reference
      [of "\<lparr>past = Timedelta 3600000000000, future = Timedelta 0, reference = None\<rparr>" _
          "Some (Timedelta 3600000000000)" "Some (Timedelta 0)" 3600000000000 0 7200000000000]
  show ?thesis
    using i b t [of 3600000000000] t [of "3600000000000 - resolution"]
      t [of 7200000000000] t [of "7200000000000 + resolution"]
    by (simp add: resolution_def)
qed

section \<open>Properties of the composite periods\<close>

subsection \<open>Construction\<close>

text \<open>
  C9, as stated, fails at the empty argument list: \<open>All()\<close> is constructed.
\<close>

theorem All_period_init_empty_counterexample:
  "All_period_init [] = Inr (All_period [])"
  by (simp add: All_period_init_def)

lemma periods_of_map: "periods_of (map PeriodArg ps) = ps"
  by (induction ps) simp_all

lemma no_other_map: "\<not> list_ex (\<lambda>arg. \<not> isinstance_TimePeriod arg) (map PeriodArg ps)"
  by (induction ps) simp_all

text \<open>
  C9, amended: the period composites raise (a \<open>TypeError\<close>) exactly when some argument
  is not a period, and otherwise store the arguments, also when there are none. The
  condition composites check nothing: they are constructed from no arguments and
  from an argument that is not a condition.
\<close>

theorem composite_init_checks:
  "(All_period_init args = Inl TypeError) = list_ex (\<lambda>arg. \<not> isinstance_TimePeriod arg) args \<and>
   (Any_period_init args = Inl TypeError) = list_ex (\<lambda>arg. \<not> isinstance_TimePeriod arg) args \<and>
   All_period_init (map PeriodArg ps) = Inr (All_period ps) \<and>
   Any_period_init (map PeriodArg ps) = Inr (Any_period ps) \<and>
   All_period_init [] = Inr (All_period []) \<and>
   Any_period_init [] = Inr (Any_period []) \<and>
   All_init [] = (All_cond [] :: ('c, 's) condition) \<and>
   Any_init [] = (Any_cond [] :: ('c, 's) condition) \<and>
   All_init [NonCondition i] = (All_cond [NonCondition i] :: ('c, 's) condition) \<and>
   Any_init [NonCondition i] = (Any_cond [NonCondition i] :: ('c, 's) condition)"
  by (simp add: All_period_init_def Any_period_init_def periods_of_map no_other_map
      All_init_def Any_init_def)

subsection \<open>Outcomes of calls\<close>

lemma bind_outcome_Some_Inr:
  "bind_outcome m f = Some (Inr y) \<Longrightarrow> \<exists>x. m = Some (Inr x) \<and> f x = Some (Inr y)"
  by (auto simp: bind_outcome_def split: option.splits sum.splits)
lemma bind_outcome_mono:
  assumes "bind_outcome m f = Some r"
    and "\<And>y. m = Some y \<Longrightarrow> m' = Some y"
    and "\<And>x. m = Some (Inr x) \<Longrightarrow> f x = Some r \<Longrightarrow> g x = Some r"
  shows "bind_outcome m' g = Some r"
  using assms by (auto simp: bind_outcome_def split: option.splits sum.splits)

lemma collect_mono:
  assumes "\<And>p y. p \<in> set ps \<Longrightarrow> f p = Some y \<Longrightarrow> g p = Some y"
  shows "collect (map f ps) = Some r \<Longrightarrow> collect (map g ps) = Some r"
  using assms
proof (induction ps arbitrary: r)
  case Nil
  then show ?case by simp
next
  case (Cons p ps)
  from Cons.prems(1) have b: "bind_outcome (f p)
      (\<lambda>x. bind_outcome (collect (map f ps)) (\<lambda>xs. Some (Inr (x # xs)))) = Some r" by simp
  have "bind_outcome (g p)
      (\<lambda>x. bind_outcome (collect (map g ps)) (\<lambda>xs. Some (Inr (x # xs)))) = Some r"
  proof (rule bind_outcome_mono [OF b])
    fix y assume "f p = Some y"
    then show "g p = Some y" using Cons.prems(2) by simp
  next
    fix x assume "bind_outcome (collect (map f ps)) (\<lambda>xs. Some (Inr (x # xs))) = Some r"
    then show "bind_outcome (collect (map g ps)) (\<lambda>xs. Some (Inr (x # xs))) = Some r"
    proof (rule bind_outcome_mono)
      fix y assume "collect (map f ps) = Some y"
      then show "collect (map g ps) = Some y"
        using Cons.IH [of y] Cons.prems(2) by simp
    qed simp
  qed
  then show ?case by simp
qed
lemma collect_Inr:
  "collect ms = Some (Inr xs) \<Longrightarrow> list_all2 (\<lambda>m x. m = Some (Inr x)) ms xs"
proof (induction ms arbitrary: xs)
  case Nil
  then show ?case by simp
next
  case (Cons m ms)
  then show ?case by (auto dest!: bind_outcome_Some_Inr)
qed
lemma collect_map_nonempty:
  "collect (map f ps) = Some (Inr ivs) \<Longrightarrow> ps \<noteq> [] \<Longrightarrow> ivs \<noteq> []"
  by (cases ps) (auto dest!: bind_outcome_Some_Inr)

subsection \<open>Pairwise overlap\<close>

lemma all_overlap_Cons:
  "all_overlap (x # xs) = (list_all (overlaps x) xs \<and> all_overlap xs)"
  by (simp add: all_overlap_def list_all_iff) blast

lemma all_overlap_pairs:
  "all_overlap ivs \<Longrightarrow> \<forall>iv\<in>set ivs. left iv \<le> right iv \<Longrightarrow>
   \<forall>a\<in>set ivs. \<forall>b\<in>set ivs. left a \<le> right b"
proof (induction ivs)
  case Nil
  show ?case by simp
next
  case (Cons x xs)
  from Cons.prems(1) have ox: "\<forall>y\<in>set xs. overlaps x y" and ax: "all_overlap xs"
    by (simp_all add: all_overlap_Cons list_all_iff)
  from Cons.IH [OF ax] Cons.prems(2) have ih: "\<forall>a\<in>set xs. \<forall>b\<in>set xs. left a \<le> right b"
    by simp
  from Cons.prems(2) have vx: "left x \<le> right x" by simp
  show ?case using ox ih vx by (auto dest: overlaps_le)
qed

lemma python_max_Max:
  assumes "xs \<noteq> []"
  shows "python_max xs = Inr (Max (set xs))"
proof (cases xs)
  case Nil
  with assms show ?thesis by simp
next
  case (Cons a list)
  have "Max (set (a # list)) = fold max list a" by (rule Max.set_eq_fold)
  with Cons show ?thesis by simp
qed

lemma python_min_Min:
  assumes "xs \<noteq> []"
  shows "python_min xs = Inr (Min (set xs))"
proof (cases xs)
  case Nil
  with assms show ?thesis by simp
next
  case (Cons a list)
  have "Min (set (a # list)) = fold min list a" by (rule Min.set_eq_fold)
  with Cons show ?thesis by simp
qed

lemma get_overlapping_Inr:
  assumes ne: "ivs \<noteq> []" and ov: "all_overlap ivs" and valid: "\<forall>iv\<in>set ivs. left iv \<le> right iv"
  shows "get_overlapping ivs =
           Inr \<lparr>left = Max (set (map left ivs)), right = Min (set (map right ivs)),
                closed = closed_right\<rparr>"
proof -
  from all_overlap_pairs [OF ov valid] have pairs: "\<forall>a\<in>set ivs. \<forall>b\<in>set ivs. left a \<le> right b" .
  from ne have nl: "map left ivs \<noteq> []" and nr: "map right ivs \<noteq> []" by simp_all
  have "Max (set (map left ivs)) \<le> Min (set (map right ivs))"
    using ne pairs by (simp add: Max_le_iff Min_ge_iff del: set_map) auto
  then show ?thesis
    by (simp add: get_overlapping_def python_max_Max [OF nl] python_min_Min [OF nr]
        bind_result_def Interval_def del: set_map)
qed
lemma get_overlapping_valid:
  "get_overlapping ivs = Inr iv \<Longrightarrow> left iv \<le> right iv"
  by (auto simp: get_overlapping_def bind_result_def split: sum.splits dest: Interval_Inr)

subsection \<open>Rolling forward\<close>

text \<open>Every interval that a roll returns has \<open>left \<le> right\<close>.\<close>

lemma rollforward_valid:
  "rollforward k p dt = Some (Inr iv) \<Longrightarrow> left iv \<le> right iv"
proof (induction k arbitrary: p dt iv)
  case 0
  then show ?case by simp
next
  case (Suc k)
  show ?case
  proof (cases p)
    case (TimeInterval m)
    with Suc.prems show ?thesis by (simp add: TimeInterval_rollforward_valid)
  next
    case (TimeDelta d)
    with Suc.prems show ?thesis by (simp add: TimeDelta_rollforward_valid)
  next
    case (TimeCycle c)
    with Suc.prems show ?thesis by (simp add: TimeCycle_rollforward_valid)
  next
    case (StaticInterval s e)
    with Suc.prems show ?thesis by (simp add: StaticInterval_rollforward_valid)
  next
    case (Offsetted q n)
    with Suc.prems show ?thesis
      by (auto dest!: bind_outcome_Some_Inr intro: Suc.IH)
  next
    case (All_period ps)
    with Suc.prems show ?thesis
      by (auto dest!: bind_outcome_Some_Inr split: if_splits
          intro: Suc.IH get_overlapping_valid)
  next
    case (Any_period ps)
    with Suc.prems show ?thesis
      by (auto dest!: bind_outcome_Some_Inr Interval_Inr split: if_splits)
  qed
qed
lemma collect_rollforward_valid:
  assumes "collect (map (\<lambda>p. rollforward k p dt) ps) = Some (Inr ivs)"
  shows "length ivs = length ps \<and> (\<forall>iv\<in>set ivs. left iv \<le> right iv)"
proof -
  from collect_Inr [OF assms]
  have l: "list_all2 (\<lambda>m x. m = Some (Inr x)) (map (\<lambda>p. rollforward k p dt) ps) ivs" .
  then have len: "length ivs = length ps" by (auto dest: list_all2_lengthD)
  have "\<forall>iv\<in>set ivs. left iv \<le> right iv"
  proof
    fix iv assume "iv \<in> set ivs"
    then obtain i where i: "i < length ivs" "ivs ! i = iv" by (auto simp: in_set_conv_nth)
    with l len have "rollforward k (ps ! i) dt = Some (Inr iv)"
      by (auto simp: list_all2_conv_all_nth)
    then show "left iv \<le> right iv" by (rule rollforward_valid)
  qed
  with len show ?thesis by simp
qed

text \<open>
  The depth given to a roll only bounds it: a roll that ends within some depth ends the
  same way within any greater depth.
\<close>

lemma rollforward_Suc:
  "rollforward k p dt = Some r \<Longrightarrow> rollforward (Suc k) p dt = Some r"
proof (induction k arbitrary: p dt r)
  case 0
  then show ?case by simp
next
  case (Suc k)
  note IH = Suc.IH
  have cm: "\<And>ps t y. collect (map (\<lambda>q. rollforward k q t) ps) = Some y \<Longrightarrow>
                collect (map (\<lambda>q. rollforward (Suc k) q t) ps) = Some y"
    by (rule collect_mono) (auto intro: IH)
  show ?case
  proof (cases p)
    case (TimeInterval m)
    with Suc.prems show ?thesis by simp
  next
    case (TimeDelta d)
    with Suc.prems show ?thesis by simp
  next
    case (TimeCycle c)
    with Suc.prems show ?thesis by simp
  next
    case (StaticInterval s e)
    with Suc.prems show ?thesis by simp
  next
    case (Offsetted q n)
    with Suc.prems have b: "bind_outcome (rollforward k q dt) (\<lambda>interval.
        bind_outcome (Some (Timestamp_add (right interval) resolution)) (\<lambda>new_dt.
        rollforward k q new_dt)) = Some r" by simp
    have "bind_outcome (rollforward (Suc k) q dt) (\<lambda>interval.
        bind_outcome (Some (Timestamp_add (right interval) resolution)) (\<lambda>new_dt.
        rollforward (Suc k) q new_dt)) = Some r"
      by (rule bind_outcome_mono [OF b]) (auto intro: IH elim: bind_outcome_mono simp del: rollforward.simps)
    with Offsetted show ?thesis by simp
  next
    case (All_period ps)
    with Suc.prems have b: "bind_outcome (collect (map (\<lambda>period. rollforward k period dt) ps))
       (\<lambda>intervals.
         if all_overlap intervals then Some (get_overlapping intervals)
         else
           bind_outcome (Some (python_min (map right intervals))) (\<lambda>earliest.
           bind_outcome (Some (Timestamp_add earliest datetime_resolution)) (\<lambda>seed.
           rollforward k (All_period ps) seed))) = Some r" by simp
    have "bind_outcome (collect (map (\<lambda>period. rollforward (Suc k) period dt) ps))
       (\<lambda>intervals.
         if all_overlap intervals then Some (get_overlapping intervals)
         else
           bind_outcome (Some (python_min (map right intervals))) (\<lambda>earliest.
           bind_outcome (Some (Timestamp_add earliest datetime_resolution)) (\<lambda>seed.
           rollforward (Suc k) (All_period ps) seed))) = Some r"
      by (rule bind_outcome_mono [OF b])
         (auto intro: IH cm elim!: bind_outcome_mono split: if_splits simp del: rollforward.simps)
    with All_period show ?thesis by simp
  next
    case (Any_period ps)
    with Suc.prems have b: "bind_outcome (collect (map (\<lambda>period. rollforward k period dt) ps)) (\<lambda>intervals.
     bind_outcome (Some (python_min (map left intervals))) (\<lambda>start.
     bind_outcome (Some (python_max (map right intervals))) (\<lambda>end'.
     bind_outcome (Some (Timestamp_add end' datetime_resolution)) (\<lambda>seed.
     bind_outcome (collect (map (\<lambda>period. rollforward k period seed) ps)) (\<lambda>next_intervals.
     bind_outcome (Some (any_overlaps start end' next_intervals)) (\<lambda>extend.
       if extend then
         bind_outcome (rollforward k (Any_period ps) seed) (\<lambda>extended.
         Some (Interval (Some start) (Some (right extended)) closed_right))
       else Some (Interval (Some start) (Some end') closed_right))))))) = Some r" by simp
    have "bind_outcome (collect (map (\<lambda>period. rollforward (Suc k) period dt) ps)) (\<lambda>intervals.
     bind_outcome (Some (python_min (map left intervals))) (\<lambda>start.
     bind_outcome (Some (python_max (map right intervals))) (\<lambda>end'.
     bind_outcome (Some (Timestamp_add end' datetime_resolution)) (\<lambda>seed.
     bind_outcome (collect (map (\<lambda>period. rollforward (Suc k) period seed) ps)) (\<lambda>next_intervals.
     bind_outcome (Some (any_overlaps start end' next_intervals)) (\<lambda>extend.
       if extend then
         bind_outcome (rollforward (Suc k) (Any_period ps) seed) (\<lambda>extended.
         Some (Interval (Some start) (Some (right extended)) closed_right))
       else Some (Interval (Some start) (Some end') closed_right))))))) = Some r"
      by (rule bind_outcome_mono [OF b])
         (auto intro: IH cm elim!: bind_outcome_mono split: if_splits simp del: rollforward.simps)
    with Any_period show ?thesis by simp
  qed
qed

lemma rollforward_fuel_mono:
  "rollforward k p dt = Some r \<Longrightarrow> k \<le> k' \<Longrightarrow> rollforward k' p dt = Some r"
  by (induction k' ) (auto simp: le_Suc_eq dest: rollforward_Suc)

subsection \<open>The intersection of periods\<close>

lemma All_rollforward_overlap:
  assumes ne: "periods \<noteq> []"
    and c: "collect (map (\<lambda>period. rollforward k period dt) periods) = Some (Inr intervals)"
    and ov: "all_overlap intervals"
  shows "rollforward (Suc k) (All_period periods) dt =
           Some (Inr \<lparr>left = Max (set (map left intervals)),
                      right = Min (set (map right intervals)), closed = closed_right\<rparr>)"
proof -
  from collect_map_nonempty [OF c ne] have ine: "intervals \<noteq> []" .
  from collect_rollforward_valid [OF c] have v: "\<forall>iv\<in>set intervals. left iv \<le> right iv" by simp
  show ?thesis
    using c ov by (simp add: bind_outcome_def get_overlapping_Inr [OF ine ov v] del: set_map)
qed

lemma All_rollforward_retry:
  assumes ne: "periods \<noteq> []"
    and c: "collect (map (\<lambda>period. rollforward k period dt) periods) = Some (Inr intervals)"
    and nov: "\<not> all_overlap intervals"
  shows "rollforward (Suc k) (All_period periods) dt =
           (case Timestamp_add (Min (set (map right intervals))) datetime_resolution of
              Inl e \<Rightarrow> Some (Inl e)
            | Inr seed \<Rightarrow> rollforward k (All_period periods) seed)"
proof -
  from collect_map_nonempty [OF c ne] have "map right intervals \<noteq> []" by simp
  from python_min_Min [OF this] show ?thesis
    using c nov by (simp add: bind_outcome_def del: set_map split: sum.splits)
qed

lemma All_rollforward_result:
  assumes ne: "periods \<noteq> []"
  shows "rollforward k (All_period periods) dt = Some (Inr iv) \<Longrightarrow>
         \<exists>j seed intervals.
           collect (map (\<lambda>period. rollforward j period seed) periods) = Some (Inr intervals) \<and>
           all_overlap intervals \<and>
           left iv = Max (set (map left intervals)) \<and>
           right iv = Min (set (map right intervals))"
proof (induction k arbitrary: dt)
  case 0
  then show ?case by simp
next
  case (Suc k)
  from Suc.prems obtain intervals where
    c: "collect (map (\<lambda>period. rollforward k period dt) periods) = Some (Inr intervals)"
    by (auto dest!: bind_outcome_Some_Inr)
  show ?case
  proof (cases "all_overlap intervals")
    case True
    from All_rollforward_overlap [OF ne c True] Suc.prems
    have "left iv = Max (set (map left intervals)) \<and> right iv = Min (set (map right intervals))"
      by (simp del: rollforward.simps set_map)
    with c True show ?thesis by blast
  next
    case False
    from All_rollforward_retry [OF ne c False] Suc.prems
    obtain seed where "rollforward k (All_period periods) seed = Some (Inr iv)"
      by (auto simp del: rollforward.simps set_map split: sum.splits)
    from Suc.IH [OF this] show ?thesis .
  qed
qed

text \<open>
  C7: for a composite \<open>All\<close> of at least one period whose children, rolled forward
  from \<open>dt\<close>, return \<open>intervals\<close>: when these overlap pairwise the roll returns the
  interval from the greatest left end to the least right end; otherwise the roll is
  the roll from \<open>datetime.datetime.resolution\<close> past the least right end (or the
  exception of that addition). And whatever interval a roll of the composite returns
  is such an intersection, of the children's intervals at some instant where they
  overlap pairwise.
\<close>

theorem All_rollforward_fixed_point:
  "(periods \<noteq> [] \<and>
    collect (map (\<lambda>period. rollforward k period dt) periods) = Some (Inr intervals) \<and>
    all_overlap intervals \<longrightarrow>
      (\<exists>iv. rollforward (Suc k) (All_period periods) dt = Some (Inr iv) \<and>
            left iv = Max (set (map left intervals)) \<and>
            right iv = Min (set (map right intervals)))) \<and>
   (periods \<noteq> [] \<and>
    collect (map (\<lambda>period. rollforward k period dt) periods) = Some (Inr intervals) \<and>
    \<not> all_overlap intervals \<longrightarrow>
      rollforward (Suc k) (All_period periods) dt =
        (case Timestamp_add (Min (set (map right intervals))) datetime_resolution of
           Inl e \<Rightarrow> Some (Inl e)
         | Inr seed \<Rightarrow> rollforward k (All_period periods) seed)) \<and>
   (periods \<noteq> [] \<and> rollforward k' (All_period periods) dt = Some (Inr result) \<longrightarrow>
      (\<exists>j seed candidates.
         collect (map (\<lambda>period. rollforward j period seed) periods) = Some (Inr candidates) \<and>
         all_overlap candidates \<and>
         left result = Max (set (map left candidates)) \<and>
         right result = Min (set (map right candidates))))"
proof -
  have 1: "periods \<noteq> [] \<and>
    collect (map (\<lambda>period. rollforward k period dt) periods) = Some (Inr intervals) \<and>
    all_overlap intervals \<longrightarrow>
      (\<exists>iv. rollforward (Suc k) (All_period periods) dt = Some (Inr iv) \<and>
            left iv = Max (set (map left intervals)) \<and>
            right iv = Min (set (map right intervals)))"
    using All_rollforward_overlap [of periods k dt intervals]
    by (simp del: rollforward.simps set_map)
  have 2: "periods \<noteq> [] \<and>
    collect (map (\<lambda>period. rollforward k period dt) periods) = Some (Inr intervals) \<and>
    \<not> all_overlap intervals \<longrightarrow>
      rollforward (Suc k) (All_period periods) dt =
        (case Timestamp_add (Min (set (map right intervals))) datetime_resolution of
           Inl e \<Rightarrow> Some (Inl e)
         | Inr seed \<Rightarrow> rollforward k (All_period periods) seed)"
    using All_rollforward_retry [of periods k dt intervals] by blast
  have 3: "periods \<noteq> [] \<and> rollforward k' (All_period periods) dt = Some (Inr result) \<longrightarrow>
      (\<exists>j seed candidates.
         collect (map (\<lambda>period. rollforward j period seed) periods) = Some (Inr candidates) \<and>
         all_overlap candidates \<and>
         left result = Max (set (map left candidates)) \<and>
         right result = Min (set (map right candidates)))"
    using All_rollforward_result [of periods k' dt result] by blast
  from 1 2 3 show ?thesis by blast
qed

text \<open>
  An interval that is always [5000, 7000] and a \<open>TimeDelta\<close> of 3000 ns, rolled from
  0: the candidates [5000, 7000] and (0, 3000] do not overlap, the roll is tried again
  from 3000 + 1000, and there the candidates overlap.
\<close>

theorem All_rollforward_fixed_point_witness:
  "[TimeInterval \<lparr>rollstart = (\<lambda>t. 5000), rollend = (\<lambda>t. 7000), next_end = (\<lambda>t. 7000),
                    prev_start = (\<lambda>t. 5000)\<rparr>,
    TimeDelta \<lparr>past = Timedelta 0, future = Timedelta 3000, reference = None\<rparr>] \<noteq> [] \<and>
   collect (map (\<lambda>period. rollforward (Suc (Suc 0)) period 0)
     [TimeInterval \<lparr>rollstart = (\<lambda>t. 5000), rollend = (\<lambda>t. 7000), next_end = (\<lambda>t. 7000),
                     prev_start = (\<lambda>t. 5000)\<rparr>,
      TimeDelta \<lparr>past = Timedelta 0, future = Timedelta 3000, reference = None\<rparr>]) =
     Some (Inr [\<lparr>left = 5000, right = 7000, closed = closed_both\<rparr>,
                \<lparr>left = 0, right = 3000, closed = closed_right\<rparr>]) \<and>
   \<not> all_overlap [\<lparr>left = 5000, right = 7000, closed = closed_both\<rparr>,
                  \<lparr>left = 0, right = 3000, closed = closed_right\<rparr>] \<and>
   Timestamp_add 3000 datetime_resolution = Inr 4000 \<and>
   rollforward (Suc (Suc (Suc 0)))
     (All_period
       [TimeInterval \<lparr>rollstart = (\<lambda>t. 5000), rollend = (\<lambda>t. 7000), next_end = (\<lambda>t. 7000),
                       prev_start = (\<lambda>t. 5000)\<rparr>,
        TimeDelta \<lparr>past = Timedelta 0, future = Timedelta 3000, reference = None\<rparr>]) 0 =
     rollforward (Suc (Suc 0))
       (All_period
         [TimeInterval \<lparr>rollstart = (\<lambda>t. 5000), rollend = (\<lambda>t. 7000), next_end = (\<lambda>t. 7000),
                         prev_start = (\<lambda>t. 5000)\<rparr>,
          TimeDelta \<lparr>past = Timedelta 0, future = Timedelta 3000, reference = None\<rparr>]) 4000 \<and>
   collect (map (\<lambda>period. rollforward (Suc 0) period 4000)
     [TimeInterval \<lparr>rollstart = (\<lambda>t. 5000), rollend = (\<lambda>t. 7000), next_end = (\<lambda>t. 7000),
                     prev_start = (\<lambda>t. 5000)\<rparr>,
      TimeDelta \<lparr>past = Timedelta 0, future = Timedelta 3000, reference = None\<rparr>]) =
     Some (Inr [\<lparr>left = 5000, right = 7000, closed = closed_both\<rparr>,
                \<lparr>left = 4000, right = 7000, closed = closed_right\<rparr>]) \<and>
   all_overlap [\<lparr>left = 5000, right = 7000, closed = closed_both\<rparr>,
                \<lparr>left = 4000, right = 7000, closed = closed_right\<rparr>] \<and>
   rollforward (Suc (Suc 0))
     (All_period
       [TimeInterval \<lparr>rollstart = (\<lambda>t. 5000), rollend = (\<lambda>t. 7000), next_end = (\<lambda>t. 7000),
                       prev_start = (\<lambda>t. 5000)\<rparr>,
        TimeDelta \<lparr>past = Timedelta 0, future = Timedelta 3000, reference = None\<rparr>]) 4000 =
     Some (Inr \<lparr>left = 5000, right = 7000, closed = closed_right\<rparr>)"
  using All_rollforward_fixed_point
    [of "[TimeInterval \<lparr>rollstart = (\<lambda>t. 5000), rollend = (\<lambda>t. 7000), next_end = (\<lambda>t. 7000),
                          prev_start = (\<lambda>t. 5000)\<rparr>,
          TimeDelta \<lparr>past = Timedelta 0, future = Timedelta 3000, reference = None\<rparr>]"
        "Suc (Suc 0)" 0
        "[\<lparr>left = 5000, right = 7000, closed = closed_both\<rparr>,
          \<lparr>left = 0, right = 3000, closed = closed_right\<rparr>]"
        "Suc (Suc 0)" "\<lparr>left = 5000, right = 7000, closed = closed_right\<rparr>"]
    All_rollforward_fixed_point
    [of "[TimeInterval \<lparr>rollstart = (\<lambda>t. 5000), rollend = (\<lambda>t. 7000), next_end = (\<lambda>t. 7000),
                          prev_start = (\<lambda>t. 5000)\<rparr>,
          TimeDelta \<lparr>past = Timedelta 0, future = Timedelta 3000, reference = None\<rparr>]"
        "Suc 0" 4000
        "[\<lparr>left = 5000, right = 7000, closed = closed_both\<rparr>,
          \<lparr>left = 4000, right = 7000, closed = closed_right\<rparr>]"
        "Suc (Suc 0)" "\<lparr>left = 5000, right = 7000, closed = closed_right\<rparr>"]
  by (simp add: bind_outcome_def bind_result_def TimeInterval_rollforward_def
      TimeDelta_rollforward_def Timestamp_add_def Interval_def all_overlap_def overlaps_def
      closed_left_side_def closed_right_side_def get_overlapping_def
      Timestamp_min_def Timestamp_max_def datetime_resolution_def
      Timestamp_def Timestamp_or_NaT_def in_bounds_def)

end
